theory Spec2Isabelle
  imports Complex_Main "HOL-Library.AList"
begin

section \<open>JavaScript values\<close>

text \<open>
  The parser of \<^verbatim>\<open>src/index.ts\<close> builds plain JavaScript objects. The embedding keeps
  them as they are: an object is an association list of property names and values in
  insertion order, a string is a list of 8-bit code units (texts with code units above
  255 are outside the model), a number is an exact rational or one of the three special
  values. Numbers are not rounded to binary64 and the sign of zero is not kept.
  A \<open>JDate s\<close> stands for the object \<^verbatim>\<open>new Date(s)\<close>: what the engine makes of the
  string \<open>s\<close> (a calendar date, or its Invalid Date) is not modelled.
\<close>

datatype jsnum = NaN | Fin rat | PosInf | NegInf

datatype jsval =
    JUndefined
  | JNull
  | JBool bool
  | JNum jsnum
  | JStr string
  | JDate string
  | JArr "jsval list"
  | JObj "(string \<times> jsval) list"

type_synonym obj = "(string \<times> jsval) list"

datatype error =
    UnknownRecordType
  | UnknownStructuredCommunicationType
  | UnknownCommunicationType
  | UnknownStructuredMovementCommunicationType
  | UnknownMovementCommunicationType
  | UnknownDateFormat string
  | NoHandlerDefined jsval
  | TypeError

text \<open>Property read \<^verbatim>\<open>o.k\<close>, property write \<^verbatim>\<open>o.k = v\<close>, \<^verbatim>\<open>delete o.k\<close> and
  \<^verbatim>\<open>Object.assign(target, ...sources)\<close>.\<close>

definition get_prop :: "obj \<Rightarrow> string \<Rightarrow> jsval" where
  "get_prop ob k = (case map_of ob k of None \<Rightarrow> JUndefined | Some v \<Rightarrow> v)"

definition set_prop :: "obj \<Rightarrow> string \<Rightarrow> jsval \<Rightarrow> obj" where
  "set_prop ob k v = AList.update k v ob"

definition delete_prop :: "string \<Rightarrow> obj \<Rightarrow> obj" where
  "delete_prop k ob = AList.delete k ob"

definition assign1 :: "obj \<Rightarrow> obj \<Rightarrow> obj" where
  "assign1 target source = foldl (\<lambda>t (k, v). set_prop t k v) target source"

definition object_assign :: "obj \<Rightarrow> obj list \<Rightarrow> obj" where
  "object_assign target sources = foldl assign1 target sources"

section \<open>Strings\<close>

text \<open>White space of \<^verbatim>\<open>String.prototype.trim\<close> and of the regular expression class
  \<^verbatim>\<open>\s\<close>, among the 8-bit code units: TAB, LF, VT, FF, CR, SP and NBSP.\<close>

definition is_ws :: "char \<Rightarrow> bool" where
  "is_ws c = (of_char c \<in> {9::nat, 10, 11, 12, 13, 32, 160})"

definition is_digit :: "char \<Rightarrow> bool" where
  "is_digit c = (48 \<le> (of_char c :: nat) \<and> (of_char c :: nat) \<le> 57)"

definition trim :: "string \<Rightarrow> string" where
  "trim s = rev (dropWhile is_ws (rev (dropWhile is_ws s)))"

text \<open>\<^verbatim>\<open>s.slice(a, b)\<close> for constants \<open>0 \<le> a \<le> b\<close>, and \<^verbatim>\<open>s[i]\<close>.\<close>

definition slice :: "string \<Rightarrow> nat \<Rightarrow> nat \<Rightarrow> string" where
  "slice s a b = take (b - a) (drop a s)"

definition char_at :: "string \<Rightarrow> nat \<Rightarrow> jsval" where
  "char_at s i = (if i < length s then JStr [s ! i] else JUndefined)"

definition startsWith :: "string \<Rightarrow> string \<Rightarrow> bool" where
  "startsWith s p = (take (length p) s = p)"

text \<open>\<^verbatim>\<open>s.replace(/\s{2,}/g, ' ')\<close>: every maximal run of two or more white space
  characters becomes one space; a single white space character stays as it is.\<close>

function collapse_ws :: "string \<Rightarrow> string" where
  "collapse_ws [] = []"
| "collapse_ws (c # cs) =
     (if is_ws c then
        (if takeWhile is_ws cs = [] then c else CHR '' '') # collapse_ws (dropWhile is_ws cs)
      else c # collapse_ws cs)"
  by pat_completeness auto
termination
  by (relation "measure length") (auto simp: length_dropWhile_le less_Suc_eq_le)


function split_ws :: "string \<Rightarrow> string list" where
  "split_ws [] = [[]]"
| "split_ws (c # cs) =
     (if is_ws c then [] # split_ws (dropWhile is_ws cs)
      else (case split_ws cs of [] \<Rightarrow> [[c]] | l # ls \<Rightarrow> (c # l) # ls))"
  by pat_completeness auto
termination
  by (relation "measure length") (auto simp: length_dropWhile_le less_Suc_eq_le)

text \<open>Decimal rendering of a natural number, as in a template literal.\<close>

fun show_nat :: "nat \<Rightarrow> string" where
  "show_nat n =
     (if n < 10 then [''0123456789'' ! n]
      else show_nat (n div 10) @ [''0123456789'' ! (n mod 10)])"

declare show_nat.simps [simp del]

section \<open>Numbers\<close>

text \<open>
  \<^verbatim>\<open>Number(s)\<close> on a string follows the StringNumericLiteral grammar: optional white
  space around nothing (the value 0), \<^verbatim>\<open>Infinity\<close> with an optional sign, a binary,
  octal or hexadecimal integer literal without sign, or a decimal literal with optional
  sign, fraction and exponent. Anything else is NaN.
\<close>

definition digit_val :: "char \<Rightarrow> nat" where
  "digit_val c = of_char c - 48"

definition digits_val :: "string \<Rightarrow> nat" where
  "digits_val s = foldl (\<lambda>a c. 10 * a + digit_val c) 0 s"

definition hex_val :: "char \<Rightarrow> nat option" where
  "hex_val c =
     (let n = (of_char c :: nat) in
      if 48 \<le> n \<and> n \<le> 57 then Some (n - 48)
      else if 65 \<le> n \<and> n \<le> 70 then Some (n - 55)
      else if 97 \<le> n \<and> n \<le> 102 then Some (n - 87)
      else None)"

definition radix_val :: "nat \<Rightarrow> string \<Rightarrow> jsnum" where
  "radix_val b s =
     (if s \<noteq> [] \<and> list_all (\<lambda>c. case hex_val c of None \<Rightarrow> False | Some d \<Rightarrow> d < b) s
      then Fin (of_nat (foldl (\<lambda>a c. b * a + (case hex_val c of None \<Rightarrow> 0 | Some d \<Rightarrow> d)) 0 s))
      else NaN)"

definition pow10 :: "int \<Rightarrow> rat" where
  "pow10 e = (if 0 \<le> e then 10 ^ nat e else 1 / 10 ^ nat (- e))"

definition exponent_part :: "string \<Rightarrow> int option" where
  "exponent_part s =
     (case s of
        [] \<Rightarrow> Some 0
      | c # t \<Rightarrow>
          if c = CHR ''e'' \<or> c = CHR ''E'' then
            (let (neg, ds) =
               (case t of
                  [] \<Rightarrow> (False, [])
                | d # u \<Rightarrow> if d = CHR ''-'' then (True, u)
                           else if d = CHR ''+'' then (False, u) else (False, t))
             in if ds \<noteq> [] \<and> list_all is_digit ds
                then Some (if neg then - int (digits_val ds) else int (digits_val ds))
                else None)
          else None)"

definition unsigned_decimal :: "string \<Rightarrow> jsnum" where
  "unsigned_decimal s =
     (if s = ''Infinity'' then PosInf
      else
        let ip = takeWhile is_digit s; r1 = dropWhile is_digit s;
            (has_dot, fp, r2) =
              (case r1 of
                 [] \<Rightarrow> (False, [], [])
               | c # t \<Rightarrow> if c = CHR ''.'' then (True, takeWhile is_digit t, dropWhile is_digit t)
                          else (False, [], r1))
        in if ip = [] \<and> fp = [] then NaN
           else (case exponent_part r2 of
                   None \<Rightarrow> NaN
                 | Some e \<Rightarrow> Fin (of_nat (digits_val (ip @ fp)) * pow10 (e - int (length fp)))))"

definition negate :: "jsnum \<Rightarrow> jsnum" where
  "negate x = (case x of NaN \<Rightarrow> NaN | Fin q \<Rightarrow> Fin (- q) | PosInf \<Rightarrow> NegInf | NegInf \<Rightarrow> PosInf)"

definition StringToNumber :: "string \<Rightarrow> jsnum" where
  "StringToNumber s0 =
     (let s = trim s0 in
      if s = [] then Fin 0
      else if take 2 s = ''0x'' \<or> take 2 s = ''0X'' then radix_val 16 (drop 2 s)
      else if take 2 s = ''0o'' \<or> take 2 s = ''0O'' then radix_val 8 (drop 2 s)
      else if take 2 s = ''0b'' \<or> take 2 s = ''0B'' then radix_val 2 (drop 2 s)
      else if hd s = CHR ''-'' then negate (unsigned_decimal (tl s))
      else if hd s = CHR ''+'' then unsigned_decimal (tl s)
      else unsigned_decimal s)"

text \<open>\<^verbatim>\<open>Number(v)\<close>; the parser applies it to strings and to \<^verbatim>\<open>undefined\<close> (a
  character read past the end of a line) only.\<close>

definition Number :: "jsval \<Rightarrow> jsnum" where
  "Number v = (case v of JStr s \<Rightarrow> StringToNumber s | JNum n \<Rightarrow> n | _ \<Rightarrow> NaN)"

text \<open>Multiplication and division of numbers.\<close>

definition sgn_of :: "jsnum \<Rightarrow> int" where
  "sgn_of x = (case x of NaN \<Rightarrow> 0 | Fin q \<Rightarrow> (if q < 0 then - 1 else if q = 0 then 0 else 1)
               | PosInf \<Rightarrow> 1 | NegInf \<Rightarrow> - 1)"

definition js_times :: "jsnum \<Rightarrow> jsnum \<Rightarrow> jsnum" where
  "js_times x y =
     (case (x, y) of
        (NaN, _) \<Rightarrow> NaN
      | (_, NaN) \<Rightarrow> NaN
      | (Fin a, Fin b) \<Rightarrow> Fin (a * b)
      | _ \<Rightarrow> (if sgn_of x * sgn_of y = 0 then NaN
              else if sgn_of x * sgn_of y > 0 then PosInf else NegInf))"

definition js_div :: "jsnum \<Rightarrow> jsnum \<Rightarrow> jsnum" where
  "js_div x y =
     (case (x, y) of
        (NaN, _) \<Rightarrow> NaN
      | (_, NaN) \<Rightarrow> NaN
      | (Fin a, Fin b) \<Rightarrow>
          (if b = 0 then (if a = 0 then NaN else if a > 0 then PosInf else NegInf)
           else Fin (a / b))
      | (Fin a, _) \<Rightarrow> Fin 0
      | (_, Fin b) \<Rightarrow> (if sgn_of x * (if b < 0 then - 1 else 1) > 0 then PosInf else NegInf)
      | _ \<Rightarrow> NaN)"

section \<open>The helper \<^verbatim>\<open>match\<close> and the field cursor\<close>

text \<open>
  \<^verbatim>\<open>match(value, lookup)\<close> of \<^verbatim>\<open>utils/match.ts\<close>: the handler stored under the
  value, else the handler stored under the wildcard \<^verbatim>\<open>__\<close> when the table has one, else
  an exception. A table is the list of its keyed entries and its optional wildcard entry.
  The source tests \<^verbatim>\<open>value in lookup\<close>, which also sees inherited properties; their
  names are all longer than the values the parser passes (at most three characters, or
  \<^verbatim>\<open>undefined\<close>). A number is looked up under its decimal rendering; integers
  render exactly (the fields hold at most two digits), and a number with a fractional
  part, whose rendering holds a decimal point and is not modelled further, stands as the
  key \<open>''.''\<close>, which no table holds.
\<close>

definition number_key :: "jsnum \<Rightarrow> string" where
  "number_key n =
     (case n of
        NaN \<Rightarrow> ''NaN''
      | PosInf \<Rightarrow> ''Infinity''
      | NegInf \<Rightarrow> ''-Infinity''
      | Fin q \<Rightarrow>
          (if q = of_int \<lfloor>q\<rfloor> then
             (if q < 0 then ''-'' @ show_nat (nat (- \<lfloor>q\<rfloor>)) else show_nat (nat \<lfloor>q\<rfloor>))
           else ''.''))"

definition prop_key :: "jsval \<Rightarrow> string" where
  "prop_key v = (case v of JStr s \<Rightarrow> s | JNum n \<Rightarrow> number_key n | _ \<Rightarrow> ''undefined'')"

definition match :: "jsval \<Rightarrow> (string \<times> 'a) list \<Rightarrow> 'a option \<Rightarrow> error + 'a" where
  "match v lookup wildcard =
     (case map_of lookup (prop_key v) of
        Some r \<Rightarrow> Inr r
      | None \<Rightarrow> (case wildcard of Some r \<Rightarrow> Inr r | None \<Rightarrow> Inl (NoHandlerDefined v)))"

text \<open>The class \<^verbatim>\<open>StringStream\<close>: \<^verbatim>\<open>take(n)\<close> returns
  \<^verbatim>\<open>str.slice(pos, pos + n)\<close> and advances, \<^verbatim>\<open>skip(n)\<close> advances.\<close>

record StringStream =
  str :: string
  pos :: nat

definition new_StringStream :: "string \<Rightarrow> StringStream" where
  "new_StringStream s = \<lparr>str = s, pos = 0\<rparr>"

definition stream_skip :: "nat \<Rightarrow> StringStream \<Rightarrow> StringStream" where
  "stream_skip n st = st\<lparr>pos := pos st + n\<rparr>"

definition stream_take :: "nat \<Rightarrow> StringStream \<Rightarrow> string \<times> StringStream" where
  "stream_take n st = (slice (str st) (pos st) (pos st + n), st\<lparr>pos := pos st + n\<rparr>)"

text \<open>
  An object literal whose property values read from a stream is a list of property names
  with their readers, run in source order; the first reader that throws ends the
  evaluation. Accessor properties (\<^verbatim>\<open>get x_description()\<close>) store nothing: they are
  functions of the stored properties and are modelled as such further down.
\<close>

type_synonym reader = "StringStream \<Rightarrow> error + (jsval \<times> StringStream)"

fun read_object :: "(string \<times> reader) list \<Rightarrow> obj \<Rightarrow> StringStream \<Rightarrow> error + (obj \<times> StringStream)" where
  "read_object [] acc st = Inr (acc, st)"
| "read_object ((k, r) # fs) acc st =
     (case r st of Inl e \<Rightarrow> Inl e | Inr (v, st') \<Rightarrow> read_object fs (acc @ [(k, v)]) st')"

definition const :: "jsval \<Rightarrow> reader" where
  "const v st = Inr (v, st)"

definition take_with :: "nat \<Rightarrow> (string \<Rightarrow> error + jsval) \<Rightarrow> reader" where
  "take_with n f st =
     (let (t, st') = stream_take n st in case f t of Inl e \<Rightarrow> Inl e | Inr v \<Rightarrow> Inr (v, st'))"

definition skipping :: "nat \<Rightarrow> reader \<Rightarrow> reader" where
  "skipping n r st = r (stream_skip n st)"

definition nested :: "(string \<times> reader) list \<Rightarrow> reader" where
  "nested fs st = (case read_object fs [] st of Inl e \<Rightarrow> Inl e | Inr (ob, st') \<Rightarrow> Inr (JObj ob, st'))"

text \<open>An object literal whose property values read from the line directly.\<close>

fun build_object :: "(string \<times> (error + jsval)) list \<Rightarrow> error + obj" where
  "build_object [] = Inr []"
| "build_object ((k, r) # fs) =
     (case r of
        Inl e \<Rightarrow> Inl e
      | Inr v \<Rightarrow> (case build_object fs of Inl e \<Rightarrow> Inl e | Inr ob \<Rightarrow> Inr ((k, v) # ob)))"

section \<open>Dates\<close>

text \<open>
  \<^verbatim>\<open>parseDate\<close> reads the current year from the system clock for the two-digit years
  of DDMMYY; the year is the parameter \<open>now\<close> of the model. The ten-digit format builds
  its string without a century, as the source does.
\<close>

definition parseDate :: "nat \<Rightarrow> string \<Rightarrow> error + jsval" where
  "parseDate now input =
     (let stream = new_StringStream input in
      if length input = 6 then
        (let (day, s1) = stream_take 2 stream; (month, s2) = stream_take 2 s1;
             (year, s3) = stream_take 2 s2
         in Inr (JDate (show_nat (now div 100) @ year @ ''-'' @ month @ ''-'' @ day)))
      else if length input = 8 then
        (let (day, s1) = stream_take 2 stream; (month, s2) = stream_take 2 s1;
             (year, s3) = stream_take 4 s2
         in Inr (JDate (year @ ''-'' @ month @ ''-'' @ day)))
      else if length input = 10 then
        (let (day, s1) = stream_take 2 stream; (month, s2) = stream_take 2 s1;
             (year, s3) = stream_take 2 s2; (hour, s4) = stream_take 2 s3;
             (minute, s5) = stream_take 2 s4
         in Inr (JDate (year @ ''-'' @ month @ ''-'' @ day @ '' '' @ hour @ '':'' @ minute @ '':00'')))
      else Inl (UnknownDateFormat input))"

text \<open>The readers the structured layouts are written with.\<close>

definition take_raw :: "nat \<Rightarrow> reader" where
  "take_raw n = take_with n (\<lambda>t. Inr (JStr t))"

definition take_trim :: "nat \<Rightarrow> reader" where
  "take_trim n = take_with n (\<lambda>t. Inr (JStr (trim t)))"

definition take_collapse :: "nat \<Rightarrow> reader" where
  "take_collapse n = take_with n (\<lambda>t. Inr (JStr (collapse_ws (trim t))))"

definition take_number :: "nat \<Rightarrow> reader" where
  "take_number n = take_with n (\<lambda>t. Inr (JNum (Number (JStr (trim t)))))"

definition take_scaled :: "nat \<Rightarrow> rat \<Rightarrow> reader" where
  "take_scaled n k = take_with n (\<lambda>t. Inr (JNum (js_div (Number (JStr (trim t))) (Fin k))))"

definition take_date :: "nat \<Rightarrow> nat \<Rightarrow> reader" where
  "take_date now n = take_with n (\<lambda>t. parseDate now (trim t))"

definition take_flag :: "nat \<Rightarrow> reader" where
  "take_flag n = take_with n (\<lambda>t. Inr (JBool (trim t = ''1'')))"

section \<open>Record decoders\<close>

text \<open>The constants at the end of the source: the sign codes, the duplicate mark and the
  unknown date.\<close>

definition Sign_Credit :: string where "Sign_Credit = ''0''"
definition Sign_Debit :: string where "Sign_Debit = ''1''"
definition Duplicate :: string where "Duplicate = ''D''"
definition UnknownDate :: string where "UnknownDate = ''000000''"

definition sign_lookup :: "(string \<times> jsnum) list" where
  "sign_lookup = [(Sign_Credit, Fin 1), (Sign_Debit, Fin (- 1))]"

definition communication_type_lookup :: "(string \<times> jsval) list" where
  "communication_type_lookup = [(''0'', JStr ''unstructured''), (''1'', JStr ''structured'')]"

text \<open>The spread \<^verbatim>\<open>...v\<close> inside an object literal: the properties of an object,
  nothing for \<^verbatim>\<open>undefined\<close>.\<close>

definition spread :: "jsval \<Rightarrow> obj" where
  "spread v = (case v of JObj ob \<Rightarrow> ob | _ \<Rightarrow> [])"

definition run_object :: "(string \<times> reader) list \<Rightarrow> string \<Rightarrow> error + jsval" where
  "run_object fs input =
     (case read_object fs [] (new_StringStream input) of
        Inl e \<Rightarrow> Inl e
      | Inr (ob, st) \<Rightarrow> Inr (JObj ob))"

definition parseTransactionCode :: "string \<Rightarrow> error + jsval" where
  "parseTransactionCode input =
     run_object
       [(''type'', take_raw 1),
        (''family'', take_raw 2),
        (''transaction'', take_raw 2),
        (''category'', take_raw 3)] input"

definition parseHeader :: "nat \<Rightarrow> string \<Rightarrow> error + obj" where
  "parseHeader now line =
     (case read_object
        [(''record_identification'', take_raw 1),
         (''date'', skipping 4 (take_with 6 (parseDate now))),
         (''bank_identification_number'', take_raw 3),
         (''application_code'', take_raw 2),
         (''duplicate'', take_with 1 (\<lambda>t. Inr (JBool (t = Duplicate)))),
         (''file_reference'', skipping 7 (take_raw 10)),
         (''account'', nested
            [(''name'', take_trim 26),
             (''bic'', take_trim 11),
             (''identification_number'', take_raw 11)]),
         (''external_application_code'', skipping 1 (take_raw 5)),
         (''transaction_reference'', take_trim 16),
         (''related_reference'', take_trim 16),
         (''version'', skipping 7 (take_with 1 (\<lambda>t. Inr (JNum (Number (JStr t))))))]
        [] (new_StringStream line) of
        Inl e \<Rightarrow> Inl e
      | Inr (ob, st) \<Rightarrow> Inr ob)"

text \<open>\<^verbatim>\<open>parseAccount\<close> has no default case: a structure other than 0, 1, 2 or 3
  returns \<^verbatim>\<open>undefined\<close>.\<close>

definition parseAccount :: "jsnum \<Rightarrow> string \<Rightarrow> error + jsval" where
  "parseAccount structure line =
     (if structure = Fin 0 then
        run_object
          [(''type'', const (JNum structure)),
           (''type_description'', const (JStr ''Belgian account number'')),
           (''number'', take_trim 12),
           (''currency'', skipping 1 (take_trim 3)),
           (''qualification_code'', take_trim 1),
           (''country'', take_trim 2),
           (''extension_zone'', skipping 3 (take_trim 15))] line
      else if structure = Fin 1 then
        run_object
          [(''type'', const (JNum structure)),
           (''type_description'', const (JStr ''Foreign account number'')),
           (''number'', take_trim 34),
           (''currency'', take_trim 3)] line
      else if structure = Fin 2 then
        run_object
          [(''type'', const (JNum structure)),
           (''type_description'', const (JStr ''IBAN of the Belgian account number'')),
           (''number'', take_trim 31),
           (''currency'', skipping 3 (take_trim 3))] line
      else if structure = Fin 3 then
        run_object
          [(''type'', const (JNum structure)),
           (''type_description'', const (JStr ''IBAN of the foreign account number'')),
           (''number'', take_trim 34),
           (''currency'', take_trim 3)] line
      else Inr JUndefined)"

definition parseOldBalance :: "nat \<Rightarrow> string \<Rightarrow> error + obj" where
  "parseOldBalance now line =
     build_object
       [(''record_identification'', Inr (char_at line 0)),
        (''account'',
           (case parseAccount (Number (char_at line 1)) (slice line 5 42) of
              Inl e \<Rightarrow> Inl e
            | Inr a \<Rightarrow>
                Inr (JObj (assign1
                  [(''name'', JStr (trim (slice line 64 90))),
                   (''description'', JStr (trim (slice line 90 125)))] (spread a))))),
        (''sequence_number'', Inr (JStr (slice line 2 5))),
        (''balance'',
           (case match (char_at line 42) sign_lookup None of
              Inl e \<Rightarrow> Inl e
            | Inr sg \<Rightarrow> Inr (JNum (js_times (Number (JStr (slice line 43 58))) sg)))),
        (''date'', parseDate now (slice line 58 64)),
        (''coda_sequence_number'', Inr (JStr (slice line 125 128)))]"

definition parseMovement21 :: "nat \<Rightarrow> string \<Rightarrow> error + obj" where
  "parseMovement21 now line =
     build_object
       [(''record_identification'', Inr (char_at line 0)),
        (''article_code'', Inr (char_at line 1)),
        (''sequence'', Inr (JStr (slice line 2 6))),
        (''detail_sequence'', Inr (JStr (slice line 6 10))),
        (''reference_number'', Inr (JStr (trim (slice line 10 31)))),
        (''amount'',
           Inr (JNum (js_div
             (js_times (Number (JStr (slice line 32 47)))
                (if char_at line 31 = JStr Sign_Credit then Fin 1 else Fin (- 1)))
             (Fin 1000)))),
        (''value_date'',
           (if slice line 47 53 = UnknownDate then Inr JNull
            else parseDate now (slice line 47 53))),
        (''transaction_code'', parseTransactionCode (slice line 53 61)),
        (''communication_type'', match (char_at line 61) communication_type_lookup None),
        (''communication'', Inr (JStr (slice line 62 115))),
        (''entry_date'', parseDate now (slice line 115 121)),
        (''sequence_number'', Inr (JStr (slice line 121 124))),
        (''globalisation_code'', Inr (char_at line 124)),
        (''next_code'', Inr (char_at line 125)),
        (''link_code'', Inr (char_at line 127))]"

text \<open>\<^verbatim>\<open>line[112].trim()\<close> is a TypeError when the line has no column 112.\<close>

definition parseMovement22 :: "string \<Rightarrow> error + obj" where
  "parseMovement22 line =
     build_object
       [(''record_identification'', Inr (char_at line 0)),
        (''article_code'', Inr (char_at line 1)),
        (''sequence_number'', Inr (JStr (slice line 2 6))),
        (''detail_sequence'', Inr (JStr (slice line 6 10))),
        (''communication'', Inr (JStr (slice line 10 63))),
        (''customer_reference'', Inr (JStr (trim (slice line 63 98)))),
        (''bic'', Inr (JStr (trim (slice line 98 109)))),
        (''r_transaction_type'',
           (case char_at line 112 of JStr c \<Rightarrow> Inr (JStr (trim c)) | _ \<Rightarrow> Inl TypeError)),
        (''r_reason'', Inr (JStr (trim (slice line 113 117)))),
        (''category_purpose'', Inr (JStr (trim (slice line 117 121)))),
        (''purpose'', Inr (JStr (trim (slice line 121 125)))),
        (''next_code'', Inr (char_at line 125)),
        (''link_code'', Inr (char_at line 127))]"

definition parseMovement23 :: "string \<Rightarrow> error + obj" where
  "parseMovement23 line =
     (let parts = split_ws (trim (slice line 10 47));
          accountNumber = (case parts of a # _ \<Rightarrow> a | _ \<Rightarrow> []);
          accountCurrency = (case parts of _ # b # _ \<Rightarrow> b | _ \<Rightarrow> [])
      in build_object
       [(''record_identification'', Inr (char_at line 0)),
        (''article_code'', Inr (char_at line 1)),
        (''sequence'', Inr (JStr (slice line 2 6))),
        (''detail_sequence'', Inr (JStr (slice line 6 10))),
        (''counterparty'', Inr (JObj
           [(''account'', JObj [(''number'', JStr accountNumber), (''currency'', JStr accountCurrency)]),
            (''name'', JStr (trim (slice line 47 82)))])),
        (''communication'', Inr (JStr (slice line 82 115))),
        (''next_code'', Inr (char_at line 125)),
        (''link_code'', Inr (char_at line 127))])"

definition parseAdditionalInformation31 :: "string \<Rightarrow> error + obj" where
  "parseAdditionalInformation31 line =
     build_object
       [(''record_identification'', Inr (char_at line 0)),
        (''article_code'', Inr (char_at line 1)),
        (''sequence'', Inr (JStr (slice line 2 6))),
        (''detail_sequence'', Inr (JStr (slice line 6 10))),
        (''reference_number'', Inr (JStr (trim (slice line 10 31)))),
        (''transaction_code'', parseTransactionCode (slice line 31 39)),
        (''communication_type'', match (char_at line 39) communication_type_lookup None),
        (''communication'', Inr (JStr (slice line 40 113))),
        (''next_code'', Inr (char_at line 125)),
        (''link_code'', Inr (char_at line 127))]"

definition parseAdditionalInformation32 :: "string \<Rightarrow> error + obj" where
  "parseAdditionalInformation32 line =
     build_object
       [(''record_identification'', Inr (char_at line 0)),
        (''article_code'', Inr (char_at line 1)),
        (''sequence'', Inr (JStr (slice line 2 6))),
        (''detail_sequence'', Inr (JStr (slice line 6 10))),
        (''communication'', Inr (JStr (slice line 10 115))),
        (''next_code'', Inr (char_at line 125)),
        (''link_code'', Inr (char_at line 127))]"

definition parseAdditionalInformation33 :: "string \<Rightarrow> error + obj" where
  "parseAdditionalInformation33 line =
     build_object
       [(''record_identification'', Inr (char_at line 0)),
        (''article_code'', Inr (char_at line 1)),
        (''sequence'', Inr (JStr (slice line 2 6))),
        (''detail_sequence'', Inr (JStr (slice line 6 10))),
        (''communication'', Inr (JStr (slice line 10 100))),
        (''next_code'', Inr (char_at line 125)),
        (''link_code'', Inr (char_at line 127))]"

text \<open>\<^verbatim>\<open>accountStructureData\<close> is \<^verbatim>\<open>null\<close> (here \<open>None\<close>) until an old balance
  line has been read.\<close>

definition parseNewBalance :: "nat \<Rightarrow> string \<Rightarrow> jsnum option \<Rightarrow> error + obj" where
  "parseNewBalance now line accountStructureData =
     build_object
       [(''record_identification'', Inr (char_at line 0)),
        (''sequence_number'', Inr (JStr (slice line 1 4))),
        (''account'',
           (case accountStructureData of
              None \<Rightarrow> Inr (JObj [])
            | Some structure \<Rightarrow>
                (case parseAccount structure (slice line 4 41) of
                   Inl e \<Rightarrow> Inl e
                 | Inr a \<Rightarrow> Inr (JObj (spread a))))),
        (''balance'',
           (case match (char_at line 41) sign_lookup None of
              Inl e \<Rightarrow> Inl e
            | Inr sg \<Rightarrow>
                Inr (JNum (js_div (js_times (Number (JStr (slice line 42 57))) sg) (Fin 1000))))),
        (''date'', parseDate now (slice line 57 63)),
        (''link_code'', Inr (char_at line 127))]"

definition parseFreeCommunication :: "string \<Rightarrow> error + obj" where
  "parseFreeCommunication line =
     build_object
       [(''record_identification'', Inr (char_at line 0)),
        (''sequence'', Inr (JStr (slice line 2 6))),
        (''detail_sequence'', Inr (JStr (slice line 6 10))),
        (''text'', Inr (JStr (trim (slice line 32 112)))),
        (''link_code'', Inr (char_at line 127))]"

definition parseTrailer :: "string \<Rightarrow> error + obj" where
  "parseTrailer line =
     build_object
       [(''record_identification'', Inr (char_at line 0)),
        (''number_of_records'', Inr (JNum (Number (JStr (slice line 16 22))))),
        (''debit_amount'', Inr (JNum (js_div (Number (JStr (slice line 22 37))) (Fin 1000)))),
        (''credit_amount'', Inr (JNum (js_div (Number (JStr (slice line 37 52))) (Fin 1000))))]"

section \<open>Structured communications\<close>





text \<open>
  Both decoders take the assembled communication and its type. They wrap the
  communication, a string for every record the decoders build, in a stream; reading from
  anything else is a TypeError. The movement side switches on the number read from the
  first three characters, the information side on the three characters themselves.
\<close>

subsection \<open>Information records: the layouts of \<^verbatim>\<open>parseCommunicationDetail\<close>\<close>










subsection \<open>Movement records: the layouts of \<^verbatim>\<open>parseCommunicationMovement\<close>\<close>





















section \<open>Description accessors\<close>

text \<open>
  The accessor properties of the source, each a \<^verbatim>\<open>match\<close> of a stored property
  against a table of descriptions. The tables of \<^verbatim>\<open>parseTransactionCode\<close> come
  first, those of the structured communications after them.
\<close>

definition Unknown :: jsval where "Unknown = JStr ''<Unknown>''"





















definition securities_code_type_lookup_010 :: "(string \<times> jsval) list" where
  "securities_code_type_lookup_010 =
    [(''01'', JStr ''SVM''),
      (''02'', JStr ''ISIN (ISO)''),
      (''04'', JStr ''Telekurs (Switz.)''),
      (''05'', JStr ''Cedol (London)''),
      (''06'', JStr ''Cedel (Luxemburg)''),
      (''07'', JStr ''Euroclear''),
      (''08'', JStr ''Wertpapier (Germany)''),
      (''09'', JStr ''EOE (European Options Exchange)''),
      (''99'', JStr ''Internal code'')]"

definition securities_code_type_description_010 :: "obj \<Rightarrow> error + jsval" where
  "securities_code_type_description_010 this = match (get_prop this ''securities_code_type'') securities_code_type_lookup_010 (Some Unknown)"

definition securities_code_type_lookup_011 :: "(string \<times> jsval) list" where
  "securities_code_type_lookup_011 =
    [(''01'', JStr ''SVM''),
      (''02'', JStr ''ISIN (ISO)''),
      (''04'', JStr ''Telekurs (Switz.)''),
      (''05'', JStr ''Cedol (London)''),
      (''06'', JStr ''Cedel (Luxemburg)''),
      (''07'', JStr ''Euroclear''),
      (''08'', JStr ''Wertpapier (Germany)''),
      (''09'', JStr ''EOE (European Options Exchange)''),
      (''99'', JStr ''Internal code'')]"

definition securities_code_type_description_011 :: "obj \<Rightarrow> error + jsval" where
  "securities_code_type_description_011 this = match (get_prop this ''securities_code_type'') securities_code_type_lookup_011 (Some Unknown)"

definition card_scheme_lookup_111 :: "(string \<times> jsval) list" where
  "card_scheme_lookup_111 =
    [(''1'', JStr ''Bancontact/Mister Cash''),
      (''2'', JStr ''Maestro''),
      (''3'', JStr ''Private''),
      (''5'', JStr ''TINA''),
      (''9'', JStr ''Other'')]"

definition card_scheme_description_111 :: "obj \<Rightarrow> error + jsval" where
  "card_scheme_description_111 this = match (get_prop this ''card_scheme'') card_scheme_lookup_111 (Some Unknown)"

definition transaction_type_lookup_111 :: "(string \<times> jsval) list" where
  "transaction_type_lookup_111 =
    [(''0'', JStr ''Cumulative''),
      (''1'', JStr ''Withdrawal''),
      (''2'', JStr ''Cumulative on network''),
      (''5'', JStr ''POS others''),
      (''7'', JStr ''Distribution sector''),
      (''8'', JStr ''Teledata''),
      (''9'', JStr ''Fuel'')]"

definition transaction_type_description_111 :: "obj \<Rightarrow> error + jsval" where
  "transaction_type_description_111 this = match (get_prop this ''transaction_type'') transaction_type_lookup_111 (Some Unknown)"

definition card_scheme_lookup_113 :: "(string \<times> jsval) list" where
  "card_scheme_lookup_113 =
    [(''1'', JStr ''Bancontact/Mister Cash''),
      (''2'', JStr ''Maestro''),
      (''3'', JStr ''Private''),
      (''5'', JStr ''TINA'')]"

definition card_scheme_description_113 :: "obj \<Rightarrow> error + jsval" where
  "card_scheme_description_113 this = match (get_prop this ''card_scheme'') card_scheme_lookup_113 (Some Unknown)"

definition transaction_type_lookup_113 :: "(string \<times> jsval) list" where
  "transaction_type_lookup_113 =
    [(''1'', JStr ''Withdrawal''),
      (''2'', JStr ''Proton loading''),
      (''3'', JStr ''Reimbursement Proton balance''),
      (''4'', JStr ''Reversal of purchases''),
      (''5'', JStr ''POS others''),
      (''7'', JStr ''Distribution sector''),
      (''8'', JStr ''Teledata''),
      (''9'', JStr ''Fuel'')]"

definition transaction_type_description_113 :: "obj \<Rightarrow> error + jsval" where
  "transaction_type_description_113 this = match (get_prop this ''transaction_type'') transaction_type_lookup_113 (Some Unknown)"

definition product_code_lookup_113 :: "(string \<times> jsval) list" where
  "product_code_lookup_113 =
    [(''1'', JStr ''Premium with lead substitute''),
      (''2'', JStr ''Europremium''),
      (''3'', JStr ''Diesel''),
      (''4'', JStr ''LPG''),
      (''6'', JStr ''Premium plus 98 oct''),
      (''7'', JStr ''Regular unleaded''),
      (''8'', JStr ''Domestic fuel oil''),
      (''9'', JStr ''Lubricants''),
      (''10'', JStr ''Petrol''),
      (''11'', JStr ''Premium 99+''),
      (''12'', JStr ''Avgas''),
      (''16'', JStr ''Other types'')]"

definition product_code_description_113 :: "obj \<Rightarrow> error + jsval" where
  "product_code_description_113 this = match (get_prop this ''product_code'') product_code_lookup_113 (Some Unknown)"

definition card_scheme_lookup_114 :: "(string \<times> jsval) list" where
  "card_scheme_lookup_114 =
    [(''1'', JStr ''Bancontact/Mister Cash''),
      (''2'', JStr ''Maestro''),
      (''3'', JStr ''Private''),
      (''5'', JStr ''TINA''),
      (''9'', JStr ''Other'')]"

definition card_scheme_description_114 :: "obj \<Rightarrow> error + jsval" where
  "card_scheme_description_114 this = match (get_prop this ''card_scheme'') card_scheme_lookup_114 (Some Unknown)"

definition transaction_type_lookup_114 :: "(string \<times> jsval) list" where
  "transaction_type_lookup_114 =
    [(''1'', JStr ''Withdrawal''),
      (''5'', JStr ''POS others''),
      (''7'', JStr ''Distribution sector''),
      (''8'', JStr ''Teledata''),
      (''9'', JStr ''Fuel'')]"

definition transaction_type_description_114 :: "obj \<Rightarrow> error + jsval" where
  "transaction_type_description_114 this = match (get_prop this ''transaction_type'') transaction_type_lookup_114 (Some Unknown)"

definition card_scheme_lookup_115 :: "(string \<times> jsval) list" where
  "card_scheme_lookup_115 =
    [(''3'', JStr ''Private''),
      (''9'', JStr ''Other'')]"

definition card_scheme_description_115 :: "obj \<Rightarrow> error + jsval" where
  "card_scheme_description_115 this = match (get_prop this ''card_scheme'') card_scheme_lookup_115 (Some Unknown)"

definition issuing_institution_lookup_124 :: "(string \<times> jsval) list" where
  "issuing_institution_lookup_124 =
    [(''1'', JStr ''Mastercard''),
      (''2'', JStr ''Visa''),
      (''3'', JStr ''American Express''),
      (''4'', JStr ''Diners Club''),
      (''9'', JStr ''Other'')]"

definition issuing_institution_description_124 :: "obj \<Rightarrow> error + jsval" where
  "issuing_institution_description_124 this = match (get_prop this ''issuing_institution'') issuing_institution_lookup_124 (Some Unknown)"

definition type_direct_debit_lookup_127 :: "(string \<times> jsval) list" where
  "type_direct_debit_lookup_127 =
    [(''0'', JStr ''Unspecified''),
      (''1'', JStr ''Recurrent''),
      (''2'', JStr ''One-off''),
      (''3'', JStr ''1st (Recurrent)''),
      (''4'', JStr ''Last (Recurrent)'')]"

definition type_direct_debit_description_127 :: "obj \<Rightarrow> error + jsval" where
  "type_direct_debit_description_127 this = match (get_prop this ''type_direct_debit'') type_direct_debit_lookup_127 (Some Unknown)"

definition direct_debit_scheme_lookup_127 :: "(string \<times> jsval) list" where
  "direct_debit_scheme_lookup_127 =
    [(''0'', JStr ''Unspecified''),
      (''1'', JStr ''SEPA core''),
      (''2'', JStr ''SEPA B2B'')]"

definition direct_debit_scheme_description_127 :: "obj \<Rightarrow> error + jsval" where
  "direct_debit_scheme_description_127 this = match (get_prop this ''direct_debit_scheme'') direct_debit_scheme_lookup_127 (Some Unknown)"

definition paid_or_reason_for_refused_payment_lookup_127 :: "(string \<times> jsval) list" where
  "paid_or_reason_for_refused_payment_lookup_127 =
    [(''0'', JStr ''Paid''),
      (''1'', JStr ''Technical problem''),
      (''2'', JStr ''Reason not specified''),
      (''3'', JStr ''Debtor disagrees''),
      (''4'', JStr (''Debtor'' @ [CHR 0x27] @ ''s account problem''))]"

definition paid_or_reason_for_refused_payment_description_127 :: "obj \<Rightarrow> error + jsval" where
  "paid_or_reason_for_refused_payment_description_127 this = match (get_prop this ''paid_or_reason_for_refused_payment'') paid_or_reason_for_refused_payment_lookup_127 (Some Unknown)"

definition type_of_r_transaction_lookup_127 :: "(string \<times> jsval) list" where
  "type_of_r_transaction_lookup_127 =
    [(''0'', JStr ''Paid''),
      (''1'', JStr ''Reject''),
      (''2'', JStr ''Return''),
      (''3'', JStr ''Refund''),
      (''4'', JStr ''Reversal''),
      (''5'', JStr ''Cancellation'')]"

definition type_of_r_transaction_description_127 :: "obj \<Rightarrow> error + jsval" where
  "type_of_r_transaction_description_127 this = match (get_prop this ''type_of_r_transaction'') type_of_r_transaction_lookup_127 (Some Unknown)"

section \<open>The document and its first pass\<close>

text \<open>The result object of \<^verbatim>\<open>parse\<close>; \<open>balance_old\<close> and \<open>balance_new\<close> are
  \<^verbatim>\<open>result.balance.old\<close> and \<^verbatim>\<open>result.balance.new\<close>.\<close>

record document =
  header :: obj
  balance_old :: obj
  balance_new :: obj
  movements :: "obj list"
  information :: "obj list"
  free_communications :: "obj list"
  trailer :: obj

definition empty_result :: document where
  "empty_result =
     \<lparr>header = [], balance_old = [], balance_new = [], movements = [], information = [],
      free_communications = [], trailer = []\<rparr>"

text \<open>One turn of the loop over the lines: the switch on \<^verbatim>\<open>line[0]\<close>. The state is the
  result so far and \<^verbatim>\<open>state.accountStructureData\<close>.\<close>

definition push :: "obj list \<Rightarrow> error + obj \<Rightarrow> error + obj list" where
  "push rs r = (case r of Inl e \<Rightarrow> Inl e | Inr x \<Rightarrow> Inr (rs @ [x]))"

definition decode_line ::
  "nat \<Rightarrow> string \<Rightarrow> document \<times> jsnum option \<Rightarrow> error + (document \<times> jsnum option)" where
  "decode_line now line st =
     (let (result, accountStructureData) = st in
      if char_at line 0 = JStr ''0'' then
        (case parseHeader now line of
           Inl e \<Rightarrow> Inl e
         | Inr h \<Rightarrow> Inr (result\<lparr>header := h\<rparr>, accountStructureData))
      else if char_at line 0 = JStr ''1'' then
        (case parseOldBalance now line of
           Inl e \<Rightarrow> Inl e
         | Inr b \<Rightarrow> Inr (result\<lparr>balance_old := b\<rparr>, Some (Number (char_at line 1))))
      else if char_at line 0 = JStr ''2'' then
        (if startsWith line ''21'' then
           (case push (movements result) (parseMovement21 now line) of
              Inl e \<Rightarrow> Inl e
            | Inr ms \<Rightarrow> Inr (result\<lparr>movements := ms\<rparr>, accountStructureData))
         else if startsWith line ''22'' then
           (case push (movements result) (parseMovement22 line) of
              Inl e \<Rightarrow> Inl e
            | Inr ms \<Rightarrow> Inr (result\<lparr>movements := ms\<rparr>, accountStructureData))
         else if startsWith line ''23'' then
           (case push (movements result) (parseMovement23 line) of
              Inl e \<Rightarrow> Inl e
            | Inr ms \<Rightarrow> Inr (result\<lparr>movements := ms\<rparr>, accountStructureData))
         else Inr st)
      else if char_at line 0 = JStr ''3'' then
        (if startsWith line ''31'' then
           (case push (information result) (parseAdditionalInformation31 line) of
              Inl e \<Rightarrow> Inl e
            | Inr infos \<Rightarrow> Inr (result\<lparr>information := infos\<rparr>, accountStructureData))
         else if startsWith line ''32'' then
           (case push (information result) (parseAdditionalInformation32 line) of
              Inl e \<Rightarrow> Inl e
            | Inr infos \<Rightarrow> Inr (result\<lparr>information := infos\<rparr>, accountStructureData))
         else if startsWith line ''33'' then
           (case push (information result) (parseAdditionalInformation33 line) of
              Inl e \<Rightarrow> Inl e
            | Inr infos \<Rightarrow> Inr (result\<lparr>information := infos\<rparr>, accountStructureData))
         else Inr st)
      else if char_at line 0 = JStr ''8'' then
        (case parseNewBalance now line accountStructureData of
           Inl e \<Rightarrow> Inl e
         | Inr b \<Rightarrow> Inr (result\<lparr>balance_new := b\<rparr>, accountStructureData))
      else if char_at line 0 = JStr ''4'' then
        (case push (free_communications result) (parseFreeCommunication line) of
           Inl e \<Rightarrow> Inl e
         | Inr fs \<Rightarrow> Inr (result\<lparr>free_communications := fs\<rparr>, accountStructureData))
      else if char_at line 0 = JStr ''9'' then
        (case parseTrailer line of
           Inl e \<Rightarrow> Inl e
         | Inr t \<Rightarrow> Inr (result\<lparr>trailer := t\<rparr>, accountStructureData))
      else Inl UnknownRecordType)"

fun decode_lines ::
  "nat \<Rightarrow> string list \<Rightarrow> document \<times> jsnum option \<Rightarrow> error + (document \<times> jsnum option)" where
  "decode_lines now [] st = Inr st"
| "decode_lines now (line # lines) st =
     (case decode_line now line st of Inl e \<Rightarrow> Inl e | Inr st' \<Rightarrow> decode_lines now lines st')"

section \<open>Merging the continuation records\<close>


definition normalise :: "string \<Rightarrow> string" where
  "normalise s = collapse_ws (trim s)"














section \<open>Cleanup and linking\<close>









section \<open>The parser\<close>


section \<open>Properties of the first pass\<close>

lemma startsWith_pair:
  "startsWith line [a, b] \<longleftrightarrow> char_at line 0 = JStr [a] \<and> char_at line 1 = JStr [b]"
proof (cases line)
  case Nil
  then show ?thesis by (simp add: startsWith_def char_at_def)
next
  case (Cons x xs)
  then show ?thesis by (cases xs) (auto simp: startsWith_def char_at_def)
qed

lemma decode_lines_append:
  "decode_lines now (xs @ ys) st =
     (case decode_lines now xs st of Inl e \<Rightarrow> Inl e | Inr st' \<Rightarrow> decode_lines now ys st')"
  by (induction xs arbitrary: st) (auto split: sum.splits)

text \<open>
  Claim C10. A line whose first character is 2 or 3 and whose second character is none of
  1, 2, 3 is skipped: its turn of the loop raises no error and leaves the result and the
  state as they were, so the first pass over a file with the line equals the first pass
  over the file without it.
\<close>

theorem unknown_article_code_skipped:
  assumes "char_at line 0 = JStr ''2'' \<or> char_at line 0 = JStr ''3''"
    and "char_at line 1 \<notin> {JStr ''1'', JStr ''2'', JStr ''3''}"
  shows "decode_line now line st = Inr st \<and>
         decode_lines now (before @ line # after) st0 = decode_lines now (before @ after) st0"
proof -
  have skip: "decode_line now line s = Inr s" for s
    using assms by (cases s) (auto simp: decode_line_def startsWith_pair)
  have "decode_lines now (before @ line # after) st0 = decode_lines now (before @ after) st0"
    by (simp add: decode_lines_append skip split: sum.splits)
  with skip show ?thesis by simp
qed

theorem unknown_article_code_skipped_witness:
  "decode_line 2026 ''29'' (empty_result, None) = Inr (empty_result, None) \<and>
   decode_lines 2026 ([] @ ''29'' # []) (empty_result, None) =
     decode_lines 2026 ([] @ []) (empty_result, None)"
  using unknown_article_code_skipped
    [of "''29''" 2026 "(empty_result, None)" "[]" "[]" "(empty_result, None)"]
  by (simp add: char_at_def)

section \<open>Evaluation on concrete lines\<close>

text \<open>The definitions the simplifier unfolds to run the decoders on a given line.\<close>

lemmas string_defs = slice_def char_at_def trim_def is_ws_def startsWith_def normalise_def
lemmas number_defs = Number_def StringToNumber_def unsigned_decimal_def is_digit_def
  exponent_part_def digits_val_def digit_val_def pow10_def js_times_def js_div_def negate_def
  radix_val_def hex_val_def
lemmas stream_defs = new_StringStream_def stream_take_def stream_skip_def take_with_def
  skipping_def nested_def const_def run_object_def take_raw_def take_trim_def take_collapse_def
  take_number_def take_scaled_def take_date_def take_flag_def
lemmas object_defs = get_prop_def set_prop_def delete_prop_def assign1_def object_assign_def
  spread_def match_def prop_key_def
lemmas const_defs = Sign_Credit_def Sign_Debit_def Duplicate_def UnknownDate_def sign_lookup_def
  communication_type_lookup_def
lemmas record_defs = parseHeader_def parseOldBalance_def parseNewBalance_def parseMovement21_def
  parseMovement22_def parseMovement23_def parseAdditionalInformation31_def
  parseAdditionalInformation32_def parseAdditionalInformation33_def parseFreeCommunication_def
  parseTrailer_def parseAccount_def parseTransactionCode_def parseDate_def
lemmas eval_defs = string_defs number_defs stream_defs object_defs const_defs record_defs
  show_nat.simps


section \<open>Amounts\<close>

text \<open>
  Claim C1, at the old balance line of the test suite. The claim asks for the magnitude
  divided by 1000 in every amount field. \<^verbatim>\<open>parseOldBalance\<close> multiplies the magnitude
  by the sign and stores the product, 4004100, where 4004.1 is due;
  \<^verbatim>\<open>parseNewBalance\<close> divides the same magnitude by 1000.
\<close>

theorem old_balance_stored_unscaled:
  "map_sum id (\<lambda>b. get_prop b ''balance'')
     (parseOldBalance 2026
       ''10155001548226815 EUR0BE                  0000000004004100241214CODELICIOUS               PROFESSIONAL ACCOUNT               255'')
   = Inr (JNum (Fin 4004100)) \<and>
   map_sum id (\<lambda>b. get_prop b ''balance'')
     (parseNewBalance 2026
       ''8155001548226815 EUR0BE                  0000000004004100241214                                                                0'' None)
   = Inr (JNum (Fin (40041 / 10)))"
  by (simp add: eval_defs)

section \<open>The unknown date\<close>




section \<open>Unknown record types\<close>





section \<open>The clock\<close>







section \<open>The account of the new balance\<close>









section \<open>Unknown layouts and unknown codes\<close>






section \<open>Linking\<close>










end
